theory Spec2Isabelle
  imports Main "HOL-Library.Char_ord" "HOL-Library.List_Lexorder" "HOL-Library.Monad_Syntax"
begin

section \<open>The store of \<open>database.py\<close>\<close>

text \<open>
  \<open>Database\<close> wraps one SQLite connection. Every method runs its statements and commits
  before it returns, so a method is a function from the store before the call to the
  store after it. The tables this class writes are maps from the primary key to the
  row. The two tables read by the join of \<open>get_user_rarity_count\<close> are lists of rows:
  the ownership table, whose declaration is not in \<open>database.py\<close>, and the card
  catalogue, each row paired with its \<open>id\<close>.

  Scope of the model. Python integers are \<open>int\<close>; an SQLite INTEGER is a signed 64-bit
  number (\<open>in64\<close>). Binding a Python integer outside that range makes \<open>execute\<close> raise
  \<open>OverflowError\<close> before the statement runs. SQLite's \<open>+\<close> on two integers whose sum
  leaves the range gives a floating-point number; floating-point values are not
  modelled, and a call that would store one ends in \<open>RealOutsideModel\<close>. SQLite's \<open>SUM\<close>
  over integers raises an error as soon as its running sum leaves the range. Python
  strings are \<open>string\<close>, read as the UTF-8 bytes SQLite stores: comparing byte lists
  lexicographically orders them as Python orders the strings by code point. Foreign keys
  are declared but not enforced (the connection never turns \<open>PRAGMA foreign_keys\<close> on).
  The tables \<open>groups\<close> and \<open>logs\<close> take no part in the operations below and are left out.
\<close>

record user_row =
  username :: "string option"
  first_name :: "string option"
  language :: "string option"
  joined_at :: "string option"
  daily_crystals :: int
  weekly_crystals :: int
  monthly_crystals :: int
  daily_claim :: "string option"
  weekly_claim :: "string option"
  monthly_claim :: "string option"
  first_logged :: int

text \<open>
  A value handed to SQLite by \<open>add_or_update_profile\<close>: Python \<open>None\<close>, an \<open>int\<close> or a
  \<open>str\<close>. The caller's keyword arguments are a dictionary from names to such values.
\<close>

datatype sqlval = SNull | SInt int | SText string

definition in64 :: "int \<Rightarrow> bool" where
  "in64 i = (- (2 ^ 63) \<le> i \<and> i < 2 ^ 63)"

type_synonym kwargs = "string \<rightharpoonup> sqlval"

record profile_row =
  level :: sqlval
  rank :: sqlval
  badge :: sqlval
  total_collected :: sqlval
  progress :: sqlval
  balance :: sqlval
  global_position :: sqlval

text \<open>The dictionary returned by \<open>get_user_profile\<close>: the seven columns and \<open>"rarities"\<close>.\<close>

record profile = profile_row +
  rarities :: "string \<rightharpoonup> int"

text \<open>
  Modelled from the spec: the table \<open>user_waifus\<close> is created outside \<open>database.py\<close>; the
  query of \<open>get_user_rarity_count\<close> reads its columns \<open>user_id\<close>, \<open>waifu_id\<close> and \<open>amount\<close>
  (the spec's ownership-quantity table). \<open>amount\<close> is nullable, as an SQLite column of
  unknown declaration may be.
\<close>

record user_waifu =
  uw_user_id :: int
  waifu_id :: int
  amount :: "int option"

record waifu_card =
  name :: "string option"
  anime :: "string option"
  card_rarity :: "string option"
  event :: "string option"

record database =
  users :: "int \<rightharpoonup> user_row"
  user_profiles :: "int \<rightharpoonup> profile_row"
  user_rarities :: "(int \<times> string) \<rightharpoonup> int"
  user_waifus :: "user_waifu list"
  waifu_cards :: "(int \<times> waifu_card) list"

text \<open>The store right after \<open>setup\<close> and \<open>setup_profile_tables\<close> on a new file.\<close>

definition empty_db :: database where
  "empty_db = \<lparr>users = Map.empty, user_profiles = Map.empty, user_rarities = Map.empty,
               user_waifus = [], waifu_cards = []\<rparr>"

datatype error =
    TypeError
  | ProgrammingError
  | OperationalError
  | OverflowError
  | StatementOutsideModel
  | RealOutsideModel

text \<open>
  \<open>TypeError\<close> is what Python raises, before the body of a method runs, for a call
  whose keyword arguments cannot be bound: \<open>**kwargs\<close> never holds a name twice, and never
  holds \<open>self\<close> or \<open>user_id\<close>, which are parameters of the method. \<open>ProgrammingError\<close>
  is \<open>sqlite3.ProgrammingError\<close> for a named placeholder without a value.
  \<open>OperationalError\<close> is \<open>sqlite3.OperationalError\<close> as \<open>cursor.execute\<close> raises it for a
  statement that names no column of the table, and for \<open>SUM\<close>'s integer overflow.
  \<open>OverflowError\<close> is Python's, raised by \<open>execute\<close> for a parameter that is an integer
  outside the 64-bit range. \<open>StatementOutsideModel\<close> and \<open>RealOutsideModel\<close> are not
  exceptions of the program: they mark a call that this model does not follow, because
  its statement text is not interpreted (see \<open>resolve_claim_column\<close>) or because SQLite
  would store a floating-point number.
\<close>

section \<open>User management\<close>

text \<open>
  \<open>add_user\<close>: \<open>INSERT OR IGNORE INTO users (user_id, username, first_name)\<close>. A new row
  takes the declared defaults; \<open>now\<close> is the value of \<open>CURRENT_TIMESTAMP\<close> at the call.
\<close>

definition add_user :: "int \<Rightarrow> string option \<Rightarrow> string option \<Rightarrow> string \<Rightarrow> database \<Rightarrow> database" where
  "add_user user_id uname fname now db =
     (case users db user_id of
        Some _ \<Rightarrow> db
      | None \<Rightarrow> db\<lparr>users := (users db)(user_id \<mapsto>
          \<lparr>username = uname, first_name = fname, language = Some ''en'',
           joined_at = Some now,
           daily_crystals = 0, weekly_crystals = 0, monthly_crystals = 0,
           daily_claim = None, weekly_claim = None, monthly_claim = None,
           first_logged = 0\<rparr>)\<rparr>)"

section \<open>Crystal management\<close>

text \<open>
  \<open>add_crystals(user_id, **kwargs)\<close>: the loop over \<open>kwargs.items()\<close>, in the dictionary's
  order. A key among the three categories runs
  \<open>UPDATE users SET k_crystals = k_crystals + v WHERE user_id = ?\<close> with the parameters
  \<open>(v, user_id)\<close>, which changes the user's row when there is one and nothing otherwise;
  any other key is skipped by the \<open>if\<close> and its value is never bound. The body itself
  raises nowhere; \<open>execute\<close> raises when a parameter cannot be bound, and the exception
  ends the loop. The result \<open>Inl\<close> does not say what the connection then holds: the
  UPDATEs that ran before the exception are not committed, and not undone either.
  \<open>counter_of k\<close> and \<open>add_to_counter k\<close> read and write the column \<open>k_crystals\<close>, for \<open>k\<close>
  one of the three categories.

  \<open>call_binds\<close>: the keyword names of a call that Python accepts are distinct and are not
  names of the method's own parameters; any other call raises \<open>TypeError\<close> before the
  body runs.
\<close>

definition call_binds :: "string list \<Rightarrow> bool" where
  "call_binds keys = (distinct keys \<and> ''self'' \<notin> set keys \<and> ''user_id'' \<notin> set keys)"

definition counter_of :: "string \<Rightarrow> user_row \<Rightarrow> int" where
  "counter_of k r =
     (if k = ''daily'' then daily_crystals r
      else if k = ''weekly'' then weekly_crystals r
      else monthly_crystals r)"

definition add_to_counter :: "string \<Rightarrow> int \<Rightarrow> user_row \<Rightarrow> user_row" where
  "add_to_counter k v r =
     (if k = ''daily'' then r\<lparr>daily_crystals := daily_crystals r + v\<rparr>
      else if k = ''weekly'' then r\<lparr>weekly_crystals := weekly_crystals r + v\<rparr>
      else r\<lparr>monthly_crystals := monthly_crystals r + v\<rparr>)"

definition add_crystals_step :: "int \<Rightarrow> string \<times> int \<Rightarrow> database \<Rightarrow> error + database" where
  "add_crystals_step user_id kv db =
     (if fst kv \<in> set [''daily'', ''weekly'', ''monthly'']
      then (if \<not> in64 (snd kv) \<or> \<not> in64 user_id then Inl OverflowError
            else (case users db user_id of
                    None \<Rightarrow> Inr db
                  | Some r \<Rightarrow>
                      if in64 (counter_of (fst kv) r + snd kv)
                      then Inr (db\<lparr>users := (users db)(user_id \<mapsto>
                                  add_to_counter (fst kv) (snd kv) r)\<rparr>)
                      else Inl RealOutsideModel))
      else Inr db)"

fun add_crystals_loop :: "int \<Rightarrow> (string \<times> int) list \<Rightarrow> database \<Rightarrow> error + database" where
  "add_crystals_loop user_id [] db = Inr db"
| "add_crystals_loop user_id (kv # kwargs) db =
     (case add_crystals_step user_id kv db of
        Inl e \<Rightarrow> Inl e
      | Inr db' \<Rightarrow> add_crystals_loop user_id kwargs db')"

definition add_crystals :: "int \<Rightarrow> (string \<times> int) list \<Rightarrow> database \<Rightarrow> error + database" where
  "add_crystals user_id kwargs db =
     (if \<not> call_binds (map fst kwargs) then Inl TypeError
      else add_crystals_loop user_id kwargs db)"

text \<open>
  Python's \<open>max\<close> over a non-empty list: keep the first element, replace it by a later one
  that is strictly greater.
\<close>

fun py_max :: "string \<Rightarrow> string list \<Rightarrow> string" where
  "py_max m [] = m"
| "py_max m (x # xs) = py_max (if m < x then x else m) xs"

text \<open>The filter \<open>if ts\<close>: \<open>None\<close> and the empty string are falsy.\<close>

definition keep_truthy :: "string option \<Rightarrow> string option" where
  "keep_truthy ts = (case ts of None \<Rightarrow> None | Some s \<Rightarrow> if s = [] then None else Some s)"

definition get_crystals :: "int \<Rightarrow> database \<Rightarrow> int \<times> int \<times> int \<times> int \<times> string option" where
  "get_crystals user_id db =
     (case users db user_id of
        None \<Rightarrow> (0, 0, 0, 0, None)
      | Some row \<Rightarrow>
          (let daily = daily_crystals row; weekly = weekly_crystals row;
               monthly = monthly_crystals row;
               total = daily + weekly + monthly;
               timestamps = List.map_filter keep_truthy
                              [daily_claim row, weekly_claim row, monthly_claim row];
               last_claim = (case timestamps of [] \<Rightarrow> None | t # ts \<Rightarrow> Some (py_max t ts))
           in (daily, weekly, monthly, total, last_claim)))"

text \<open>
  \<open>get_last_claim\<close> and \<open>update_last_claim\<close> splice \<open>claim_type + "_claim"\<close> into the
  statement as the column name. SQLite reads a plain identifier (letters, digits and
  underscores, not starting with a digit) as one column name and compares it with the
  table's columns without regard to ASCII case; the only columns of \<open>users\<close> whose name
  ends in \<open>_claim\<close> are the three below. A plain identifier that is none of them makes
  \<open>execute\<close> raise \<open>OperationalError\<close> (no such column) before anything is written. A text
  that is not a plain identifier makes another statement, which is not interpreted here.
\<close>

datatype claim_column = DailyClaim | WeeklyClaim | MonthlyClaim

definition ascii_lower :: "char \<Rightarrow> char" where
  "ascii_lower c =
     (case map_of (zip ''ABCDEFGHIJKLMNOPQRSTUVWXYZ'' ''abcdefghijklmnopqrstuvwxyz'') c of
        None \<Rightarrow> c | Some l \<Rightarrow> l)"

definition plain_identifier :: "string \<Rightarrow> bool" where
  "plain_identifier s =
     (case s of
        [] \<Rightarrow> False
      | c # _ \<Rightarrow> c \<notin> set ''0123456789'' \<and>
          list_all (\<lambda>x. x \<in> set ''abcdefghijklmnopqrstuvwxyzABCDEFGHIJKLMNOPQRSTUVWXYZ0123456789_'') s)"

definition resolve_claim_column :: "string \<Rightarrow> error + claim_column" where
  "resolve_claim_column col =
     (if \<not> plain_identifier col then Inl StatementOutsideModel
      else (case map_of [(''daily_claim'', DailyClaim), (''weekly_claim'', WeeklyClaim),
                         (''monthly_claim'', MonthlyClaim)] (map ascii_lower col) of
              None \<Rightarrow> Inl OperationalError
            | Some c \<Rightarrow> Inr c))"

fun read_claim :: "claim_column \<Rightarrow> user_row \<Rightarrow> string option" where
  "read_claim DailyClaim r = daily_claim r"
| "read_claim WeeklyClaim r = weekly_claim r"
| "read_claim MonthlyClaim r = monthly_claim r"

fun write_claim :: "claim_column \<Rightarrow> string option \<Rightarrow> user_row \<Rightarrow> user_row" where
  "write_claim DailyClaim t r = r\<lparr>daily_claim := t\<rparr>"
| "write_claim WeeklyClaim t r = r\<lparr>weekly_claim := t\<rparr>"
| "write_claim MonthlyClaim t r = r\<lparr>monthly_claim := t\<rparr>"

definition get_last_claim :: "int \<Rightarrow> string \<Rightarrow> database \<Rightarrow> error + string option" where
  "get_last_claim user_id claim_type db =
     (case resolve_claim_column (claim_type @ ''_claim'') of
        Inl e \<Rightarrow> Inl e
      | Inr c \<Rightarrow> (case users db user_id of
                    None \<Rightarrow> Inr None
                  | Some r \<Rightarrow> Inr (read_claim c r)))"

text \<open>
  \<open>update_last_claim\<close>: \<open>UPDATE users SET col = ? WHERE user_id = ?\<close>; \<open>time_iso\<close> is a string
  or \<open>None\<close>. The UPDATE changes the user's row when there is one and nothing otherwise.
\<close>

definition update_last_claim :: "int \<Rightarrow> string \<Rightarrow> string option \<Rightarrow> database \<Rightarrow> error + database" where
  "update_last_claim user_id claim_type time_iso db =
     (case resolve_claim_column (claim_type @ ''_claim'') of
        Inl e \<Rightarrow> Inl e
      | Inr c \<Rightarrow> (case users db user_id of
                    None \<Rightarrow> Inr db
                  | Some r \<Rightarrow> Inr (db\<lparr>users := (users db)(user_id \<mapsto> write_claim c time_iso r)\<rparr>)))"

section \<open>Profile system\<close>

text \<open>
  \<open>get_user_profile\<close>: \<open>None\<close> when \<open>user_profiles\<close> has no row for the user; otherwise
  the row's seven columns and, under \<open>"rarities"\<close>, the dictionary of the user's rows of
  \<open>user_rarities\<close>.
\<close>

definition get_user_profile :: "int \<Rightarrow> database \<Rightarrow> profile option" where
  "get_user_profile user_id db =
     (case user_profiles db user_id of
        None \<Rightarrow> None
      | Some row \<Rightarrow>
          Some \<lparr>level = level row, rank = rank row, badge = badge row,
                total_collected = total_collected row, progress = progress row,
                balance = balance row, global_position = global_position row,
                rarities = (\<lambda>rarity. user_rarities db (user_id, rarity))\<rparr>)"

definition profile_defaults :: kwargs where
  "profile_defaults =
     [''level'' \<mapsto> SInt 1, ''rank'' \<mapsto> SText ''Newbie'', ''badge'' \<mapsto> SText ''None'',
      ''total_collected'' \<mapsto> SInt 0, ''progress'' \<mapsto> SInt 0, ''balance'' \<mapsto> SInt 0,
      ''global_position'' \<mapsto> SText ''Unranked'']"

text \<open>
  The values of the named placeholders \<open>:level\<close> ... \<open>:global_position\<close>, looked up in
  the parameter dictionary; entries under other names are not used by the statement.
\<close>

definition bind_row :: "kwargs \<Rightarrow> profile_row option" where
  "bind_row params =
     do { l \<leftarrow> params ''level'';
          r \<leftarrow> params ''rank'';
          b \<leftarrow> params ''badge'';
          t \<leftarrow> params ''total_collected'';
          p \<leftarrow> params ''progress'';
          m \<leftarrow> params ''balance'';
          g \<leftarrow> params ''global_position'';
          Some \<lparr>level = l, rank = r, badge = b, total_collected = t, progress = p,
                balance = m, global_position = g\<rparr> }"

text \<open>
  \<open>add_or_update_profile(user_id, **kwargs)\<close>: \<open>defaults.update(kwargs)\<close>, then
  \<open>INSERT ... ON CONFLICT(user_id) DO UPDATE SET\<close> every column to the new value: the
  row of \<open>user_id\<close> becomes the bound row, whether there was one or not. The parameters
  are \<open>user_id\<close> and the seven values; an integer among them outside the 64-bit range
  makes \<open>execute\<close> raise \<open>OverflowError\<close> and nothing is written. A value is stored as
  it is bound when it is NULL or of the column's declared type (an integer in an INTEGER
  column, a string in a TEXT column); SQLite's conversion of other values by column
  affinity is not modelled, and \<open>kwargs_typed\<close> below names the calls without it.
\<close>

definition bindable :: "sqlval \<Rightarrow> bool" where
  "bindable v = (case v of SInt i \<Rightarrow> in64 i | _ \<Rightarrow> True)"

definition add_or_update_profile :: "int \<Rightarrow> kwargs \<Rightarrow> database \<Rightarrow> error + database" where
  "add_or_update_profile user_id kw db =
     (if kw ''self'' \<noteq> None \<or> kw ''user_id'' \<noteq> None then Inl TypeError
      else (let defaults = profile_defaults ++ kw
            in case bind_row defaults of
                 None \<Rightarrow> Inl ProgrammingError
               | Some row \<Rightarrow>
                   if in64 user_id \<and>
                      list_all bindable [level row, rank row, badge row, total_collected row,
                                         progress row, balance row, global_position row]
                   then Inr (db\<lparr>user_profiles := (user_profiles db)(user_id \<mapsto> row)\<rparr>)
                   else Inl OverflowError))"

definition kwargs_typed :: "kwargs \<Rightarrow> bool" where
  "kwargs_typed kw =
     (list_all (\<lambda>k. case kw k of Some (SText _) \<Rightarrow> False | _ \<Rightarrow> True)
        [''level'', ''total_collected'', ''progress'', ''balance''] \<and>
      list_all (\<lambda>k. case kw k of Some (SInt _) \<Rightarrow> False | _ \<Rightarrow> True)
        [''rank'', ''badge'', ''global_position''])"

text \<open>The caller's integers for the seven columns are inside the 64-bit range.\<close>

definition kwargs_in_range :: "kwargs \<Rightarrow> bool" where
  "kwargs_in_range kw =
     list_all (\<lambda>k. case kw k of Some v \<Rightarrow> bindable v | None \<Rightarrow> True)
       [''level'', ''rank'', ''badge'', ''total_collected'', ''progress'', ''balance'',
        ''global_position'']"

text \<open>
  \<open>update_user_rarity(user_id, rarity, count=1)\<close>:
  \<open>INSERT ... ON CONFLICT(user_id, rarity) DO UPDATE SET count = count + excluded.count\<close>
  with the parameters \<open>(user_id, rarity, count)\<close>. The default of \<open>count\<close> is the caller
  passing 1.
\<close>

definition update_user_rarity :: "int \<Rightarrow> string \<Rightarrow> int \<Rightarrow> database \<Rightarrow> error + database" where
  "update_user_rarity user_id rarity cnt db =
     (if \<not> in64 user_id \<or> \<not> in64 cnt then Inl OverflowError
      else (case user_rarities db (user_id, rarity) of
              None \<Rightarrow> Inr (db\<lparr>user_rarities := (user_rarities db)((user_id, rarity) \<mapsto> cnt)\<rparr>)
            | Some c \<Rightarrow>
                if in64 (c + cnt)
                then Inr (db\<lparr>user_rarities := (user_rarities db)((user_id, rarity) \<mapsto> c + cnt)\<rparr>)
                else Inl RealOutsideModel))"

section \<open>Owned cards of one rarity\<close>

text \<open>
  SQL's \<open>SUM\<close> over integers and NULLs: the sum of the values that are not NULL, and NULL
  when there is none (in particular over no rows). SQLite adds the values one row after
  the other and raises "integer overflow" when the running sum leaves the 64-bit range.
  \<open>sql_sum_from acc\<close> continues a sum whose state is \<open>acc\<close> (\<open>None\<close> before the first value);
  the rows are taken in the order of the list.
\<close>

fun sql_sum_from :: "int option \<Rightarrow> int option list \<Rightarrow> error + int option" where
  "sql_sum_from acc [] = Inr acc"
| "sql_sum_from acc (None # vs) = sql_sum_from acc vs"
| "sql_sum_from acc (Some v # vs) =
     (let s = (case acc of None \<Rightarrow> 0 | Some a \<Rightarrow> a) + v
      in if in64 s then sql_sum_from (Some s) vs else Inl OperationalError)"

definition sql_sum :: "int option list \<Rightarrow> error + int option" where
  "sql_sum vs = sql_sum_from None vs"

text \<open>
  \<open>FROM user_waifus uw JOIN waifu_cards wc ON uw.waifu_id = wc.id\<close>: every pair of an
  ownership row and a card row with that \<open>id\<close>.
\<close>

definition joined_rows :: "database \<Rightarrow> (user_waifu \<times> waifu_card) list" where
  "joined_rows db =
     concat (map (\<lambda>uw. map (\<lambda>wc. (uw, snd wc))
                              (filter (\<lambda>wc. waifu_id uw = fst wc) (waifu_cards db)))
                 (user_waifus db))"

text \<open>
  \<open>get_user_rarity_count\<close>: \<open>SELECT SUM(amount) ... WHERE uw.user_id = ? AND wc.rarity = ?\<close>
  (a card whose rarity is NULL passes no comparison), then
  \<open>result[0] if result[0] is not None else 0\<close>.
\<close>

definition get_user_rarity_count :: "int \<Rightarrow> string \<Rightarrow> database \<Rightarrow> error + int" where
  "get_user_rarity_count user_id rarity db =
     (if \<not> in64 user_id then Inl OverflowError
      else (let rows = filter (\<lambda>r. uw_user_id (fst r) = user_id \<and> card_rarity (snd r) = Some rarity)
                              (joined_rows db)
            in case sql_sum (map (\<lambda>r. amount (fst r)) rows) of
                 Inl e \<Rightarrow> Inl e
               | Inr result \<Rightarrow> Inr (case result of Some s \<Rightarrow> s | None \<Rightarrow> 0)))"

section \<open>Definitions used in the statements\<close>

text \<open>Running a second call on the store the first one returned; an error of the first is the result.\<close>

definition and_then :: "error + 'a \<Rightarrow> ('a \<Rightarrow> error + 'b) \<Rightarrow> error + 'b" where
  "and_then r f = (case r of Inl e \<Rightarrow> Inl e | Inr x \<Rightarrow> f x)"

text \<open>
  The spec's words for the row of an upsert: each field is the caller's value when the
  caller supplied one, and the documented default otherwise.
\<close>

definition field_or :: "kwargs \<Rightarrow> string \<Rightarrow> sqlval \<Rightarrow> sqlval" where
  "field_or kw k d = (case kw k of None \<Rightarrow> d | Some v \<Rightarrow> v)"

definition spec_merged_row :: "kwargs \<Rightarrow> profile_row" where
  "spec_merged_row kw =
     \<lparr>level = field_or kw ''level'' (SInt 1),
      rank = field_or kw ''rank'' (SText ''Newbie''),
      badge = field_or kw ''badge'' (SText ''None''),
      total_collected = field_or kw ''total_collected'' (SInt 0),
      progress = field_or kw ''progress'' (SInt 0),
      balance = field_or kw ''balance'' (SInt 0),
      global_position = field_or kw ''global_position'' (SText ''Unranked'')\<rparr>"

text \<open>
  The spec's words for \<open>last_claim\<close>: the maximum of the claim timestamps that are not null,
  null when there is none (\<open>spec_last_claim\<close>). \<open>latest_nonempty_claim\<close> is the same over the
  timestamps that are neither null nor empty, which is what the filter of
  \<open>get_crystals\<close> keeps.
\<close>

definition claim_fields :: "user_row \<Rightarrow> string option list" where
  "claim_fields row = [daily_claim row, weekly_claim row, monthly_claim row]"

definition latest :: "string list \<Rightarrow> string option" where
  "latest ts = (if ts = [] then None else Some (Max (set ts)))"

definition spec_last_claim :: "user_row \<Rightarrow> string option" where
  "spec_last_claim row = latest (List.map_filter id (claim_fields row))"

definition latest_nonempty_claim :: "user_row \<Rightarrow> string option" where
  "latest_nonempty_claim row = latest (filter (\<lambda>t. t \<noteq> []) (List.map_filter id (claim_fields row)))"

text \<open>
  The spec's words for \<open>get_rarity_count\<close>: the amounts of the user's ownership rows whose
  card, looked up in the catalogue by its identifier, has the rarity; a NULL amount adds
  nothing.
\<close>

definition spec_owned_amounts :: "int \<Rightarrow> string \<Rightarrow> database \<Rightarrow> int list" where
  "spec_owned_amounts user_id rarity db =
     map (\<lambda>uw. case amount uw of None \<Rightarrow> 0 | Some a \<Rightarrow> a)
       (filter (\<lambda>uw. uw_user_id uw = user_id \<and>
                      map_option card_rarity (map_of (waifu_cards db) (waifu_id uw)) = Some (Some rarity))
               (user_waifus db))"

text \<open>Example stores: user 42 registered; the same after \<open>update_last_claim(42, "daily", "")\<close>; a small card collection.\<close>

definition db_user42 :: database where
  "db_user42 = add_user 42 (Some ''mika'') (Some ''Mika'') ''2024-01-01 00:00:00'' empty_db"

definition row_empty_daily :: user_row where
  "row_empty_daily =
     \<lparr>username = Some ''mika'', first_name = Some ''Mika'', language = Some ''en'',
      joined_at = Some ''2024-01-01 00:00:00'',
      daily_crystals = 0, weekly_crystals = 0, monthly_crystals = 0,
      daily_claim = Some [], weekly_claim = None, monthly_claim = None,
      first_logged = 0\<rparr>"

definition db_empty_daily :: database where
  "db_empty_daily = db_user42\<lparr>users := (users db_user42)(42 \<mapsto> row_empty_daily)\<rparr>"

definition db_cards :: database where
  "db_cards = empty_db
     \<lparr>user_waifus := [\<lparr>uw_user_id = 42, waifu_id = 1, amount = Some 2\<rparr>,
                      \<lparr>uw_user_id = 42, waifu_id = 2, amount = Some 5\<rparr>,
                      \<lparr>uw_user_id = 42, waifu_id = 3, amount = None\<rparr>,
                      \<lparr>uw_user_id = 7, waifu_id = 1, amount = Some 9\<rparr>],
      waifu_cards := [(1, \<lparr>name = Some ''Rem'', anime = Some ''Re:Zero'',
                            card_rarity = Some ''Legendary'', event = None\<rparr>),
                      (2, \<lparr>name = Some ''Asuna'', anime = Some ''SAO'',
                            card_rarity = Some ''Rare'', event = None\<rparr>),
                      (3, \<lparr>name = Some ''Emilia'', anime = Some ''Re:Zero'',
                            card_rarity = Some ''Legendary'', event = None\<rparr>)]\<rparr>"

text \<open>Keyword arguments of two upserts: \<open>level=5\<close> alone, and a rank with a level.\<close>

definition kw_level5 :: kwargs where
  "kw_level5 = [''level'' \<mapsto> SInt 5]"

definition kw_legend :: kwargs where
  "kw_legend = [''rank'' \<mapsto> SText ''Legend'', ''level'' \<mapsto> SInt 9]"

text \<open>
  The amounts of the recognised keywords of an accrual are inside the 64-bit range (the
  other keywords are never bound).
\<close>

definition amounts_in_range :: "(string \<times> int) list \<Rightarrow> bool" where
  "amounts_in_range kwargs =
     list_all (\<lambda>kv. fst kv \<in> set [''daily'', ''weekly'', ''monthly''] \<longrightarrow> in64 (snd kv)) kwargs"

text \<open>The row that \<open>add_user\<close> inserts, and the row of user 42 in \<open>db_user42\<close>.\<close>

definition new_user_row :: "string option \<Rightarrow> string option \<Rightarrow> string \<Rightarrow> user_row" where
  "new_user_row uname fname now =
     \<lparr>username = uname, first_name = fname, language = Some ''en'', joined_at = Some now,
      daily_crystals = 0, weekly_crystals = 0, monthly_crystals = 0,
      daily_claim = None, weekly_claim = None, monthly_claim = None, first_logged = 0\<rparr>"

definition row_user42 :: user_row where
  "row_user42 =
     \<lparr>username = Some ''mika'', first_name = Some ''Mika'', language = Some ''en'',
      joined_at = Some ''2024-01-01 00:00:00'',
      daily_crystals = 0, weekly_crystals = 0, monthly_crystals = 0,
      daily_claim = None, weekly_claim = None, monthly_claim = None,
      first_logged = 0\<rparr>"

text \<open>User 42 with crystals and two claims recorded.\<close>

definition row_two_claims :: user_row where
  "row_two_claims =
     \<lparr>username = Some ''mika'', first_name = Some ''Mika'', language = Some ''en'',
      joined_at = Some ''2024-01-01 00:00:00'',
      daily_crystals = 3, weekly_crystals = 2, monthly_crystals = 0,
      daily_claim = Some ''2024-01-08T00:00:00'', weekly_claim = Some ''2024-01-01T00:00:00'',
      monthly_claim = None, first_logged = 0\<rparr>"

definition db_two_claims :: database where
  "db_two_claims = db_user42\<lparr>users := (users db_user42)(42 \<mapsto> row_two_claims)\<rparr>"

text \<open>A NULL amount adds nothing to a sum.\<close>

definition amount_or_zero :: "int option \<Rightarrow> int" where
  "amount_or_zero a = (case a of None \<Rightarrow> 0 | Some x \<Rightarrow> x)"

section \<open>Auxiliary facts\<close>

lemma py_max_fold: "py_max m xs = fold max xs m"
  by (induction xs arbitrary: m) (auto simp: max_def)

lemma py_max_Max: "py_max m xs = Max (set (m # xs))"
  unfolding py_max_fold Max.set_eq_fold ..

lemma resolve_recognised:
  "resolve_claim_column ''daily_claim'' = Inr DailyClaim"
  "resolve_claim_column ''weekly_claim'' = Inr WeeklyClaim"
  "resolve_claim_column ''monthly_claim'' = Inr MonthlyClaim"
  by (simp_all add: resolve_claim_column_def plain_identifier_def ascii_lower_def)

lemma timestamps_filter:
  "List.map_filter keep_truthy (claim_fields row) =
   filter (\<lambda>t. t \<noteq> []) (List.map_filter id (claim_fields row))"
  by (simp add: claim_fields_def keep_truthy_def split: option.splits)

lemma last_claim_latest:
  "(case ts of [] \<Rightarrow> None | t # r \<Rightarrow> Some (py_max t r)) = latest ts"
  by (cases ts) (simp_all add: latest_def py_max_Max)

lemma get_crystals_row:
  "users db u = Some row \<Longrightarrow>
   get_crystals u db = (daily_crystals row, weekly_crystals row, monthly_crystals row,
                        daily_crystals row + weekly_crystals row + monthly_crystals row,
                        latest_nonempty_claim row)"
  using timestamps_filter[of row]
  by (simp add: get_crystals_def Let_def last_claim_latest latest_nonempty_claim_def claim_fields_def)

lemma loop_no_row:
  "users db u = None \<Longrightarrow> in64 u \<Longrightarrow> amounts_in_range kws \<Longrightarrow> add_crystals_loop u kws db = Inr db"
  by (induction kws) (simp_all add: add_crystals_step_def amounts_in_range_def)

lemma loop_no_row_same:
  "users db u = None \<Longrightarrow> add_crystals_loop u kws db = Inr db' \<Longrightarrow> db' = db"
  by (induction kws) (auto simp: add_crystals_step_def split: if_splits sum.splits)



lemma step_row:
  "users db u = Some row \<Longrightarrow> in64 u \<Longrightarrow> k \<in> set [''daily'', ''weekly'', ''monthly''] \<Longrightarrow>
   in64 v \<Longrightarrow> in64 (counter_of k row + v) \<Longrightarrow>
   add_crystals u [(k, v)] db = Inr (db\<lparr>users := (users db)(u \<mapsto> add_to_counter k v row)\<rparr>)"
  by (auto simp: add_crystals_def call_binds_def add_crystals_step_def)

lemma counter_add: "k \<in> set [''daily'', ''weekly'', ''monthly''] \<Longrightarrow>
   counter_of k (add_to_counter k a row) = counter_of k row + a"
  by (auto simp: counter_of_def add_to_counter_def)

lemma add_add: "k \<in> set [''daily'', ''weekly'', ''monthly''] \<Longrightarrow>
   add_to_counter k b (add_to_counter k a row) = add_to_counter k (a + b) row"
  by (auto simp: add_to_counter_def add_ac)

lemma two_accruals:
  assumes "users db u = Some row" and "in64 u"
    and "k \<in> set [''daily'', ''weekly'', ''monthly'']"
    and "in64 a" and "in64 b"
    and "in64 (counter_of k row + a)" and "in64 (counter_of k row + a + b)"
  shows "and_then (add_crystals u [(k, a)] db) (add_crystals u [(k, b)]) =
         Inr (db\<lparr>users := (users db)(u \<mapsto> add_to_counter k (a + b) row)\<rparr>)"
proof -
  let ?db1 = "db\<lparr>users := (users db)(u \<mapsto> add_to_counter k a row)\<rparr>"
  have first: "add_crystals u [(k, a)] db = Inr ?db1"
    using assms by (intro step_row)
  have u1: "users ?db1 u = Some (add_to_counter k a row)" by simp
  have "in64 (counter_of k (add_to_counter k a row) + b)"
    using assms(3,7) by (simp only: counter_add)
  then have second: "add_crystals u [(k, b)] ?db1 =
      Inr (?db1\<lparr>users := (users ?db1)(u \<mapsto> add_to_counter k b (add_to_counter k a row))\<rparr>)"
    using assms(2,3,5) u1 by (intro step_row)
  show ?thesis
    by (simp only: first second and_then_def sum.case add_add[OF assms(3)]) simp
qed

lemma add_user_new:
  "users db u = None \<Longrightarrow>
   add_user u uname fname now db = db\<lparr>users := (users db)(u \<mapsto> new_user_row uname fname now)\<rparr>"
  by (simp add: add_user_def new_user_row_def)

lemma fresh_three:
  assumes "in64 u" "in64 d" "in64 w" "in64 m" "users db u = Some (new_user_row uname fname now)"
  shows "add_crystals u [(''daily'', d), (''weekly'', w), (''monthly'', m)] db =
         Inr (db\<lparr>users := (users db)(u \<mapsto>
                (new_user_row uname fname now)\<lparr>daily_crystals := d, weekly_crystals := w,
                                               monthly_crystals := m\<rparr>)\<rparr>)"
  using assms
  by (simp add: add_crystals_def call_binds_def add_crystals_step_def counter_of_def
        add_to_counter_def new_user_row_def)

text \<open>SQLite matches the column name without regard to case: \<open>"DAILY"\<close> writes \<open>daily_claim\<close>.\<close>

lemma resolve_ignores_case: "resolve_claim_column (''DAILY'' @ ''_claim'') = Inr DailyClaim"
  by (simp add: resolve_claim_column_def plain_identifier_def ascii_lower_def)




lemma filter_nonempty_id:
  "Some [] \<notin> set fs \<Longrightarrow> filter (\<lambda>t. t \<noteq> []) (List.map_filter id fs) = List.map_filter id fs"
  by (induction fs) (auto split: option.splits)

lemma latest_nonempty_is_spec:
  "Some [] \<notin> set (claim_fields row) \<Longrightarrow> latest_nonempty_claim row = spec_last_claim row"
  by (simp add: latest_nonempty_claim_def spec_last_claim_def filter_nonempty_id)

lemma bind_row_defaults: "bind_row (profile_defaults ++ kw) = Some (spec_merged_row kw)"
  by (simp add: bind_row_def profile_defaults_def map_add_def field_or_def spec_merged_row_def
           split: option.splits)

lemma merged_bindable:
  "kwargs_in_range kw \<Longrightarrow>
   list_all bindable [level (spec_merged_row kw), rank (spec_merged_row kw),
     badge (spec_merged_row kw), total_collected (spec_merged_row kw),
     progress (spec_merged_row kw), balance (spec_merged_row kw),
     global_position (spec_merged_row kw)]"
  by (simp add: kwargs_in_range_def spec_merged_row_def field_or_def bindable_def in64_def
        split: option.splits)

lemma add_or_update_profile_accepted:
  assumes "kw ''self'' = None" and "kw ''user_id'' = None" and "kwargs_in_range kw"
    and "in64 user_id"
  shows "add_or_update_profile user_id kw db =
     Inr (db\<lparr>user_profiles := (user_profiles db)(user_id \<mapsto> spec_merged_row kw)\<rparr>)"
  unfolding add_or_update_profile_def Let_def bind_row_defaults
  using assms merged_bindable[OF assms(3)] by simp

lemma rarity_new:
  "in64 u \<Longrightarrow> in64 c \<Longrightarrow> user_rarities db (u, r) = None \<Longrightarrow>
   update_user_rarity u r c db = Inr (db\<lparr>user_rarities := (user_rarities db)((u, r) \<mapsto> c)\<rparr>)"
  by (simp add: update_user_rarity_def)

lemma rarity_add:
  "in64 u \<Longrightarrow> in64 c \<Longrightarrow> user_rarities db (u, r) = Some c0 \<Longrightarrow> in64 (c0 + c) \<Longrightarrow>
   update_user_rarity u r c db = Inr (db\<lparr>user_rarities := (user_rarities db)((u, r) \<mapsto> c0 + c)\<rparr>)"
  by (simp add: update_user_rarity_def)

lemma amount_or_zero_simps: "amount_or_zero None = 0" "amount_or_zero (Some x) = x"
  by (simp_all add: amount_or_zero_def)

lemma sql_sum_from_exact:
  "\<bar>amount_or_zero acc\<bar> + sum_list (map (\<lambda>v. \<bar>amount_or_zero v\<bar>) vs) < 2 ^ 63 \<Longrightarrow>
   \<exists>res. sql_sum_from acc vs = Inr res \<and>
         amount_or_zero res = amount_or_zero acc + sum_list (map amount_or_zero vs)"
proof (induction vs arbitrary: acc)
  case Nil
  show ?case by simp
next
  case (Cons v vs)
  show ?case
  proof (cases v)
    case None
    with Cons.prems have "\<bar>amount_or_zero acc\<bar> + sum_list (map (\<lambda>v. \<bar>amount_or_zero v\<bar>) vs) < 2 ^ 63"
      by (simp add: amount_or_zero_simps)
    from Cons.IH[OF this] None show ?thesis by (simp add: amount_or_zero_simps)
  next
    case (Some x)
    let ?s = "amount_or_zero acc + x"
    have nonneg: "0 \<le> sum_list (map (\<lambda>v. \<bar>amount_or_zero v\<bar>) vs)"
      by (rule sum_list_nonneg) auto
    from Cons.prems Some have b: "\<bar>amount_or_zero acc\<bar> + \<bar>x\<bar> + sum_list (map (\<lambda>v. \<bar>amount_or_zero v\<bar>) vs) < 2 ^ 63"
      by (simp add: amount_or_zero_simps)
    with nonneg have r: "in64 ?s" unfolding in64_def by linarith
    from b have "\<bar>amount_or_zero (Some ?s)\<bar> + sum_list (map (\<lambda>v. \<bar>amount_or_zero v\<bar>) vs) < 2 ^ 63"
      unfolding amount_or_zero_simps by linarith
    from Cons.IH[OF this] obtain res where
      res: "sql_sum_from (Some ?s) vs = Inr res"
      "amount_or_zero res = amount_or_zero (Some ?s) + sum_list (map amount_or_zero vs)" by blast
    have step: "sql_sum_from acc (Some x # vs) = sql_sum_from (Some ?s) vs"
      using r by (simp add: Let_def amount_or_zero_def)
    show ?thesis using res Some
      by (simp only: step) (simp add: amount_or_zero_simps)
  qed
qed

lemma sql_sum_exact:
  assumes "sum_list (map (\<lambda>v. \<bar>amount_or_zero v\<bar>) vs) < 2 ^ 63"
  shows "\<exists>res. sql_sum vs = Inr res \<and> amount_or_zero res = sum_list (map amount_or_zero vs)"
  using sql_sum_from_exact[of None vs] assms by (simp add: sql_sum_def amount_or_zero_simps)

lemma join_one:
  "distinct (map fst cs) \<Longrightarrow>
   map snd (filter (\<lambda>wc. k = fst wc) cs) = (case map_of cs k of None \<Rightarrow> [] | Some c \<Rightarrow> [c])"
proof (induction cs)
  case Nil show ?case by simp
next
  case (Cons a cs)
  then show ?case
    by (auto split: option.splits simp: map_of_eq_None_iff filter_empty_conv rev_image_eqI)
qed

lemma joined_amounts:
  assumes "distinct (map fst cs)"
  shows "map (\<lambda>r. amount (fst r))
           (filter (\<lambda>r. uw_user_id (fst r) = u \<and> card_rarity (snd r) = Some q)
              (concat (map (\<lambda>uw. map (\<lambda>wc. (uw, snd wc)) (filter (\<lambda>wc. waifu_id uw = fst wc) cs)) uws))) =
         map amount
           (filter (\<lambda>uw. uw_user_id uw = u \<and>
                          map_option card_rarity (map_of cs (waifu_id uw)) = Some (Some q)) uws)"
proof (induction uws)
  case Nil show ?case by simp
next
  case (Cons uw uws)
  have "map (\<lambda>wc. (uw, snd wc)) (filter (\<lambda>wc. waifu_id uw = fst wc) cs) =
        map (Pair uw) (map snd (filter (\<lambda>wc. waifu_id uw = fst wc) cs))"
    by simp
  also have "\<dots> = map (Pair uw) (case map_of cs (waifu_id uw) of None \<Rightarrow> [] | Some c \<Rightarrow> [c])"
    by (simp only: join_one[OF assms])
  finally have one: "map (\<lambda>wc. (uw, snd wc)) (filter (\<lambda>wc. waifu_id uw = fst wc) cs) =
        (case map_of cs (waifu_id uw) of None \<Rightarrow> [] | Some c \<Rightarrow> [(uw, c)])"
    by (simp split: option.splits)
  show ?case using Cons.IH
    by (simp add: one split: option.splits)
qed

lemma spec_owned_amounts_eq:
  "distinct (map fst (waifu_cards db)) \<Longrightarrow>
   spec_owned_amounts u q db =
     map amount_or_zero (map (\<lambda>r. amount (fst r))
        (filter (\<lambda>r. uw_user_id (fst r) = u \<and> card_rarity (snd r) = Some q) (joined_rows db)))"
  unfolding joined_rows_def spec_owned_amounts_def
  by (simp only: joined_amounts map_map comp_def amount_or_zero_def)

section \<open>Balance of an unknown user\<close>

text \<open>
  Claim C6. For every user identifier with no ledger row, \<open>get_crystals\<close> does not fail
  and returns exactly \<open>(0, 0, 0, 0, None)\<close>.
\<close>

theorem get_crystals_unknown_user:
  "users db user_id = None \<Longrightarrow> get_crystals user_id db = (0, 0, 0, 0, None)"
  by (simp add: get_crystals_def)

theorem get_crystals_unknown_user_witness:
  "users empty_db 42 = None \<and> get_crystals 42 empty_db = (0, 0, 0, 0, None)"
  using get_crystals_unknown_user[of empty_db 42] by (simp add: empty_db_def)

section \<open>Accrual\<close>

text \<open>
  Claim C3 as stated fails. On the store without a row for user 42,
  \<open>add_crystals(42, daily=5)\<close> returns with the store as it was: the UPDATE matches no
  row and nothing inserts one, so \<open>get_crystals(42)\<close> afterwards is still all zeros.
\<close>

theorem add_crystals_creates_row_counterexample:
  "users empty_db 42 = None \<and>
   add_crystals 42 [(''daily'', 5)] empty_db = Inr empty_db \<and>
   and_then (add_crystals 42 [(''daily'', 5)] empty_db) (\<lambda>db'. Inr (get_crystals 42 db')) =
     Inr (0, 0, 0, 0, None)"
  by (simp add: add_crystals_def call_binds_def add_crystals_step_def empty_db_def and_then_def
        get_crystals_def in64_def)

text \<open>
  Claim C3, amended. For every user identifier with no ledger row, \<open>add_crystals\<close> creates
  no row. With amounts inside the 64-bit range the call returns with the store
  unchanged, and \<open>get_crystals\<close> afterwards returns \<open>(0, 0, 0, 0, None)\<close>; whatever the
  amounts, a call that returns leaves the store unchanged. The row is created by
  \<open>add_user\<close>; once the user is registered, the first accrual of an amount \<open>v\<close> inside the
  range in a category is what \<open>get_crystals\<close> reports for that category and as total.
  User identifiers are inside the range as well.
\<close>

theorem add_crystals_needs_row:
  assumes "users db user_id = None" and "in64 user_id"
  shows "(call_binds (map fst kwargs) \<and> amounts_in_range kwargs \<longrightarrow>
            add_crystals user_id kwargs db = Inr db \<and>
            and_then (add_crystals user_id kwargs db) (\<lambda>db'. Inr (get_crystals user_id db')) =
              Inr (0, 0, 0, 0, None)) \<and>
         (\<forall>db'. add_crystals user_id kwargs db = Inr db' \<longrightarrow> db' = db) \<and>
         (in64 v \<longrightarrow>
            and_then (add_crystals user_id [(''daily'', v)] (add_user user_id uname fname now db))
                     (\<lambda>db'. Inr (get_crystals user_id db')) = Inr (v, 0, 0, v, None) \<and>
            and_then (add_crystals user_id [(''weekly'', v)] (add_user user_id uname fname now db))
                     (\<lambda>db'. Inr (get_crystals user_id db')) = Inr (0, v, 0, v, None) \<and>
            and_then (add_crystals user_id [(''monthly'', v)] (add_user user_id uname fname now db))
                     (\<lambda>db'. Inr (get_crystals user_id db')) = Inr (0, 0, v, v, None))"
proof (intro conjI impI allI)
  assume h: "call_binds (map fst kwargs) \<and> amounts_in_range kwargs"
  then show "add_crystals user_id kwargs db = Inr db"
    using loop_no_row[OF assms, of kwargs] by (simp add: add_crystals_def)
  then show "and_then (add_crystals user_id kwargs db) (\<lambda>db'. Inr (get_crystals user_id db')) =
              Inr (0, 0, 0, 0, None)"
    using assms(1) by (simp add: and_then_def get_crystals_def)
next
  fix db' assume "add_crystals user_id kwargs db = Inr db'"
  then show "db' = db"
    using loop_no_row_same[OF assms(1)] by (simp add: add_crystals_def split: if_splits)
next
  assume "in64 v"
  with assms show "and_then (add_crystals user_id [(''daily'', v)] (add_user user_id uname fname now db))
                     (\<lambda>db'. Inr (get_crystals user_id db')) = Inr (v, 0, 0, v, None)"
    by (simp add: add_crystals_def call_binds_def add_crystals_step_def and_then_def
        get_crystals_def add_user_def add_to_counter_def counter_of_def Let_def keep_truthy_def)
next
  assume "in64 v"
  with assms show "and_then (add_crystals user_id [(''weekly'', v)] (add_user user_id uname fname now db))
                     (\<lambda>db'. Inr (get_crystals user_id db')) = Inr (0, v, 0, v, None)"
    by (simp add: add_crystals_def call_binds_def add_crystals_step_def and_then_def
        get_crystals_def add_user_def add_to_counter_def counter_of_def Let_def keep_truthy_def)
next
  assume "in64 v"
  with assms show "and_then (add_crystals user_id [(''monthly'', v)] (add_user user_id uname fname now db))
                     (\<lambda>db'. Inr (get_crystals user_id db')) = Inr (0, 0, v, v, None)"
    by (simp add: add_crystals_def call_binds_def add_crystals_step_def and_then_def
        get_crystals_def add_user_def add_to_counter_def counter_of_def Let_def keep_truthy_def)
qed

theorem add_crystals_needs_row_witness:
  "users empty_db 42 = None \<and> in64 42 \<and> call_binds (map fst [(''daily'', 5::int)]) \<and>
   amounts_in_range [(''daily'', 5)] \<and> in64 5 \<and>
   add_crystals 42 [(''daily'', 5)] empty_db = Inr empty_db \<and>
   and_then (add_crystals 42 [(''daily'', 5)]
               (add_user 42 (Some ''mika'') (Some ''Mika'') ''2024-01-01 00:00:00'' empty_db))
            (\<lambda>db'. Inr (get_crystals 42 db')) = Inr (5, 0, 0, 5, None)"
proof -
  have h: "users empty_db 42 = None" by (simp add: empty_db_def)
  have i: "in64 42" "in64 5" by (simp_all add: in64_def)
  have b: "call_binds (map fst [(''daily'', 5::int)])" by (simp add: call_binds_def)
  have a: "amounts_in_range [(''daily'', 5)]" by (simp add: amounts_in_range_def in64_def)
  from add_crystals_needs_row[OF h i(1), where kwargs = "[(''daily'', 5)]" and v = 5
         and uname = "Some ''mika''" and fname = "Some ''Mika''" and now = "''2024-01-01 00:00:00''"]
       h i a b
  show ?thesis by blast
qed

text \<open>
  Claim C5. Accrual adds to the stored counter and never overwrites it, as long as the
  amounts and the counters stay inside SQLite's 64-bit integers. For every user with a
  row, \<open>add_crystals(user, daily=5)\<close> twice raises \<open>daily_crystals\<close> by 10, and two accruals
  \<open>a\<close> then \<open>b\<close> in one category raise its counter by \<open>a + b\<close>; for a user just registered,
  whose counters are 0, two accruals of 5 give \<open>daily_crystals = 10\<close>. For all integers \<open>d\<close>,
  \<open>w\<close>, \<open>m\<close> inside the range (non-negative or not) accrued to a user just registered, in
  one call or in three, \<open>get_crystals\<close> returns \<open>(d, w, m, d + w + m, None)\<close>.
\<close>

theorem add_crystals_additive:
  "(\<forall>row. users db user_id = Some row \<and> in64 user_id \<and>
          in64 (daily_crystals row) \<and> in64 (daily_crystals row + 10) \<longrightarrow>
      and_then (add_crystals user_id [(''daily'', 5)] db) (add_crystals user_id [(''daily'', 5)]) =
        Inr (db\<lparr>users := (users db)(user_id \<mapsto> row\<lparr>daily_crystals := daily_crystals row + 10\<rparr>)\<rparr>)) \<and>
   (\<forall>row. users db user_id = Some row \<and> in64 user_id \<and>
          category \<in> set [''daily'', ''weekly'', ''monthly''] \<and> in64 a \<and> in64 b \<and>
          in64 (counter_of category row + a) \<and> in64 (counter_of category row + a + b) \<longrightarrow>
      and_then (add_crystals user_id [(category, a)] db) (add_crystals user_id [(category, b)]) =
        Inr (db\<lparr>users := (users db)(user_id \<mapsto> add_to_counter category (a + b) row)\<rparr>)) \<and>
   (users db user_id = None \<and> in64 user_id \<longrightarrow>
      and_then (and_then (add_crystals user_id [(''daily'', 5)]
                            (add_user user_id uname fname now db))
                         (add_crystals user_id [(''daily'', 5)]))
               (\<lambda>db'. Inr (get_crystals user_id db')) = Inr (10, 0, 0, 10, None)) \<and>
   (users db user_id = None \<and> in64 user_id \<and> in64 d \<and> in64 w \<and> in64 m \<longrightarrow>
      and_then (add_crystals user_id [(''daily'', d), (''weekly'', w), (''monthly'', m)]
                  (add_user user_id uname fname now db))
               (\<lambda>db'. Inr (get_crystals user_id db')) = Inr (d, w, m, d + w + m, None)) \<and>
   (users db user_id = None \<and> in64 user_id \<and> in64 d \<and> in64 w \<and> in64 m \<longrightarrow>
      and_then (and_then (and_then (add_crystals user_id [(''daily'', d)]
                                      (add_user user_id uname fname now db))
                                   (add_crystals user_id [(''weekly'', w)]))
                         (add_crystals user_id [(''monthly'', m)]))
               (\<lambda>db'. Inr (get_crystals user_id db')) = Inr (d, w, m, d + w + m, None))"
proof (intro conjI allI impI)
  fix row
  assume h: "users db user_id = Some row \<and> in64 user_id \<and>
          in64 (daily_crystals row) \<and> in64 (daily_crystals row + 10)"
  then have five: "in64 (counter_of ''daily'' row + 5)" "in64 (counter_of ''daily'' row + 5 + 5)"
    by (simp_all add: in64_def counter_of_def)
  have i5: "in64 5" by (simp add: in64_def)
  have "and_then (add_crystals user_id [(''daily'', 5)] db) (add_crystals user_id [(''daily'', 5)]) =
        Inr (db\<lparr>users := (users db)(user_id \<mapsto> add_to_counter ''daily'' (5 + 5) row)\<rparr>)"
    using h five i5 by (intro two_accruals) simp_all
  then show "and_then (add_crystals user_id [(''daily'', 5)] db) (add_crystals user_id [(''daily'', 5)]) =
        Inr (db\<lparr>users := (users db)(user_id \<mapsto> row\<lparr>daily_crystals := daily_crystals row + 10\<rparr>)\<rparr>)"
    by (simp add: add_to_counter_def)
next
  fix row
  assume "users db user_id = Some row \<and> in64 user_id \<and>
          category \<in> set [''daily'', ''weekly'', ''monthly''] \<and> in64 a \<and> in64 b \<and>
          in64 (counter_of category row + a) \<and> in64 (counter_of category row + a + b)"
  then show "and_then (add_crystals user_id [(category, a)] db) (add_crystals user_id [(category, b)]) =
        Inr (db\<lparr>users := (users db)(user_id \<mapsto> add_to_counter category (a + b) row)\<rparr>)"
    by (intro two_accruals) simp_all
next
  assume h: "users db user_id = None \<and> in64 user_id"
  let ?row = "new_user_row uname fname now"
  let ?db0 = "db\<lparr>users := (users db)(user_id \<mapsto> ?row)\<rparr>"
  have reg: "add_user user_id uname fname now db = ?db0" using h by (simp add: add_user_new)
  have i5: "in64 5" by (simp add: in64_def)
  have c: "in64 (counter_of ''daily'' ?row + 5)" "in64 (counter_of ''daily'' ?row + 5 + 5)"
    by (simp_all add: counter_of_def new_user_row_def in64_def)
  have "and_then (add_crystals user_id [(''daily'', 5)] ?db0) (add_crystals user_id [(''daily'', 5)]) =
        Inr (?db0\<lparr>users := (users ?db0)(user_id \<mapsto> add_to_counter ''daily'' (5 + 5) ?row)\<rparr>)"
    using h i5 c by (intro two_accruals) simp_all
  then show "and_then (and_then (add_crystals user_id [(''daily'', 5)]
                            (add_user user_id uname fname now db))
                         (add_crystals user_id [(''daily'', 5)]))
               (\<lambda>db'. Inr (get_crystals user_id db')) = Inr (10, 0, 0, 10, None)"
    by (simp add: reg and_then_def get_crystals_def Let_def keep_truthy_def add_to_counter_def
          new_user_row_def)
next
  assume h: "users db user_id = None \<and> in64 user_id \<and> in64 d \<and> in64 w \<and> in64 m"
  let ?row = "new_user_row uname fname now"
  let ?db0 = "db\<lparr>users := (users db)(user_id \<mapsto> ?row)\<rparr>"
  have reg: "add_user user_id uname fname now db = ?db0" using h by (simp add: add_user_new)
  have "add_crystals user_id [(''daily'', d), (''weekly'', w), (''monthly'', m)] ?db0 =
         Inr (?db0\<lparr>users := (users ?db0)(user_id \<mapsto>
                ?row\<lparr>daily_crystals := d, weekly_crystals := w, monthly_crystals := m\<rparr>)\<rparr>)"
    using h by (intro fresh_three) simp_all
  then show "and_then (add_crystals user_id [(''daily'', d), (''weekly'', w), (''monthly'', m)]
                  (add_user user_id uname fname now db))
               (\<lambda>db'. Inr (get_crystals user_id db')) = Inr (d, w, m, d + w + m, None)"
    by (simp add: reg and_then_def get_crystals_def Let_def keep_truthy_def new_user_row_def)
next
  assume h: "users db user_id = None \<and> in64 user_id \<and> in64 d \<and> in64 w \<and> in64 m"
  let ?row = "new_user_row uname fname now"
  let ?db0 = "db\<lparr>users := (users db)(user_id \<mapsto> ?row)\<rparr>"
  let ?db1 = "?db0\<lparr>users := (users ?db0)(user_id \<mapsto> add_to_counter ''daily'' d ?row)\<rparr>"
  let ?db2 = "?db1\<lparr>users := (users ?db1)(user_id \<mapsto>
                 add_to_counter ''weekly'' w (add_to_counter ''daily'' d ?row))\<rparr>"
  have reg: "add_user user_id uname fname now db = ?db0" using h by (simp add: add_user_new)
  have s1: "add_crystals user_id [(''daily'', d)] ?db0 = Inr ?db1"
    using h by (intro step_row) (simp_all add: counter_of_def new_user_row_def)
  have s2: "add_crystals user_id [(''weekly'', w)] ?db1 = Inr ?db2"
    using h by (intro step_row) (simp_all add: counter_of_def add_to_counter_def new_user_row_def)
  have s3: "add_crystals user_id [(''monthly'', m)] ?db2 =
      Inr (?db2\<lparr>users := (users ?db2)(user_id \<mapsto> add_to_counter ''monthly'' m
                 (add_to_counter ''weekly'' w (add_to_counter ''daily'' d ?row)))\<rparr>)"
    using h by (intro step_row) (simp_all add: counter_of_def add_to_counter_def new_user_row_def)
  show "and_then (and_then (and_then (add_crystals user_id [(''daily'', d)]
                                      (add_user user_id uname fname now db))
                                   (add_crystals user_id [(''weekly'', w)]))
                         (add_crystals user_id [(''monthly'', m)]))
               (\<lambda>db'. Inr (get_crystals user_id db')) = Inr (d, w, m, d + w + m, None)"
    by (simp only: reg s1 s2 s3 and_then_def sum.case)
       (simp add: get_crystals_def Let_def keep_truthy_def add_to_counter_def new_user_row_def)
qed

theorem add_crystals_additive_witness:
  "users empty_db 42 = None \<and> in64 42 \<and> in64 3 \<and> in64 2 \<and> in64 0 \<and>
   and_then (and_then (add_crystals 42 [(''daily'', 5)]
                        (add_user 42 (Some ''mika'') (Some ''Mika'') ''2024-01-01 00:00:00'' empty_db))
                      (add_crystals 42 [(''daily'', 5)]))
            (\<lambda>db'. Inr (get_crystals 42 db')) = Inr (10, 0, 0, 10, None) \<and>
   and_then (add_crystals 42 [(''daily'', 3), (''weekly'', 2), (''monthly'', 0)]
               (add_user 42 (Some ''mika'') (Some ''Mika'') ''2024-01-01 00:00:00'' empty_db))
            (\<lambda>db'. Inr (get_crystals 42 db')) = Inr (3, 2, 0, 3 + 2 + 0, None) \<and>
   users db_user42 42 = Some row_user42 \<and> in64 (daily_crystals row_user42) \<and>
   in64 (daily_crystals row_user42 + 10) \<and>
   and_then (add_crystals 42 [(''daily'', 5)] db_user42) (add_crystals 42 [(''daily'', 5)]) =
     Inr (db_user42\<lparr>users := (users db_user42)(42 \<mapsto>
            row_user42\<lparr>daily_crystals := daily_crystals row_user42 + 10\<rparr>)\<rparr>) \<and>
   ''weekly'' \<in> set [''daily'', ''weekly'', ''monthly''] \<and>
   in64 (counter_of ''weekly'' row_user42 + 2) \<and> in64 (counter_of ''weekly'' row_user42 + 2 + 3) \<and>
   and_then (add_crystals 42 [(''weekly'', 2)] db_user42) (add_crystals 42 [(''weekly'', 3)]) =
     Inr (db_user42\<lparr>users := (users db_user42)(42 \<mapsto>
            add_to_counter ''weekly'' (2 + 3) row_user42)\<rparr>)"
proof -
  have h: "users empty_db 42 = None" by (simp add: empty_db_def)
  have k: "''weekly'' \<in> set [''daily'', ''weekly'', ''monthly'']" by simp
  have l: "in64 (counter_of ''weekly'' row_user42 + 2)"
          "in64 (counter_of ''weekly'' row_user42 + 2 + 3)"
    by (simp_all add: counter_of_def row_user42_def in64_def)
  have i: "in64 42" "in64 3" "in64 2" "in64 0" by (simp_all add: in64_def)
  have r: "users db_user42 42 = Some row_user42"
    by (simp add: db_user42_def add_user_def empty_db_def row_user42_def)
  have j: "in64 (daily_crystals row_user42)" "in64 (daily_crystals row_user42 + 10)"
    by (simp_all add: row_user42_def in64_def)
  from add_crystals_additive[where db = empty_db and user_id = 42 and d = 3 and w = 2 and m = 0
         and uname = "Some ''mika''" and fname = "Some ''Mika''" and now = "''2024-01-01 00:00:00''"]
       add_crystals_additive[where db = db_user42 and user_id = 42 and category = "''weekly''"
         and a = 2 and b = 3]
       h i r j k l
  show ?thesis by blast
qed




section \<open>Claim timestamps\<close>

text \<open>
  Claim C8. \<open>update_last_claim\<close> for a user identifier with no ledger row, in any of the
  three categories, returns normally with the whole store as it was: it creates no row,
  and \<open>get_crystals\<close> for that user afterwards is still \<open>(0, 0, 0, 0, None)\<close>.
\<close>

theorem update_last_claim_unknown_user:
  assumes "users db user_id = None"
    and "claim_type \<in> set [''daily'', ''weekly'', ''monthly'']"
  shows "update_last_claim user_id claim_type time_iso db = Inr db \<and>
         and_then (update_last_claim user_id claim_type time_iso db)
                  (\<lambda>db'. Inr (get_crystals user_id db')) = Inr (0, 0, 0, 0, None)"
  using assms
  by (auto simp: update_last_claim_def resolve_recognised and_then_def get_crystals_def)

theorem update_last_claim_unknown_user_witness:
  "users empty_db 42 = None \<and> ''weekly'' \<in> set [''daily'', ''weekly'', ''monthly''] \<and>
   update_last_claim 42 ''weekly'' (Some ''2024-01-01T00:00:00'') empty_db = Inr empty_db \<and>
   and_then (update_last_claim 42 ''weekly'' (Some ''2024-01-01T00:00:00'') empty_db)
            (\<lambda>db'. Inr (get_crystals 42 db')) = Inr (0, 0, 0, 0, None)"
proof -
  have h1: "users empty_db 42 = None" by (simp add: empty_db_def)
  have h2: "''weekly'' \<in> set [''daily'', ''weekly'', ''monthly'']" by simp
  from update_last_claim_unknown_user[OF h1 h2] h1 h2 show ?thesis by blast
qed

text \<open>
  Claim C10. \<open>get_crystals\<close> treats a claim timestamp stored as the empty string as an
  unset one: for a user all of whose claim fields are \<open>None\<close> or \<open>""\<close>, \<open>last_claim\<close> is
  \<open>None\<close>. And \<open>update_last_claim\<close> does store the empty string: \<open>get_last_claim\<close> reads
  it back, in each category.
\<close>

theorem get_crystals_empty_string_as_unset:
  assumes "users db user_id = Some row"
  shows "(list_all (\<lambda>c. c = None \<or> c = Some [])
            [daily_claim row, weekly_claim row, monthly_claim row] \<longrightarrow>
          get_crystals user_id db =
            (daily_crystals row, weekly_crystals row, monthly_crystals row,
             daily_crystals row + weekly_crystals row + monthly_crystals row, None)) \<and>
         and_then (update_last_claim user_id ''daily'' (Some []) db)
                  (get_last_claim user_id ''daily'') = Inr (Some []) \<and>
         and_then (update_last_claim user_id ''weekly'' (Some []) db)
                  (get_last_claim user_id ''weekly'') = Inr (Some []) \<and>
         and_then (update_last_claim user_id ''monthly'' (Some []) db)
                  (get_last_claim user_id ''monthly'') = Inr (Some [])"
  using assms
  by (auto simp: get_crystals_def Let_def keep_truthy_def update_last_claim_def
                 get_last_claim_def resolve_recognised and_then_def)

theorem get_crystals_empty_string_as_unset_witness:
  "users db_empty_daily 42 = Some row_empty_daily \<and>
   list_all (\<lambda>c. c = None \<or> c = Some [])
     [daily_claim row_empty_daily, weekly_claim row_empty_daily, monthly_claim row_empty_daily] \<and>
   get_crystals 42 db_empty_daily = (0, 0, 0, 0, None) \<and>
   and_then (update_last_claim 42 ''daily'' (Some []) db_empty_daily)
            (get_last_claim 42 ''daily'') = Inr (Some [])"
proof -
  have h: "users db_empty_daily 42 = Some row_empty_daily" by (simp add: db_empty_daily_def)
  have l: "list_all (\<lambda>c. c = None \<or> c = Some [])
     [daily_claim row_empty_daily, weekly_claim row_empty_daily, monthly_claim row_empty_daily]"
    by (simp add: row_empty_daily_def)
  from get_crystals_empty_string_as_unset[OF h] l h show ?thesis
    by (simp add: row_empty_daily_def)
qed

text \<open>
  Claim C4. For every user with a ledger row whose claim timestamps are timestamps (none
  of them is the empty string), \<open>get_crystals\<close> returns the three counters, their sum as
  \<open>total\<close>, and as \<open>last_claim\<close> the maximum, in lexicographic order, of the claim
  timestamps that are not null, or \<open>None\<close> when all three are null. After
  \<open>update_last_claim(user, "weekly", t1)\<close> and then \<open>update_last_claim(user, "weekly", t2)\<close>
  the row is the original one with \<open>t2\<close> as its weekly claim, and \<open>get_last_claim\<close> reads
  \<open>t2\<close>.
\<close>

theorem get_crystals_total_and_last_claim:
  assumes "users db user_id = Some row" and "Some [] \<notin> set (claim_fields row)"
  shows "get_crystals user_id db =
           (daily_crystals row, weekly_crystals row, monthly_crystals row,
            daily_crystals row + weekly_crystals row + monthly_crystals row,
            spec_last_claim row) \<and>
         and_then (update_last_claim user_id ''weekly'' t1 db)
                  (update_last_claim user_id ''weekly'' t2) =
           Inr (db\<lparr>users := (users db)(user_id \<mapsto> row\<lparr>weekly_claim := t2\<rparr>)\<rparr>) \<and>
         and_then (and_then (update_last_claim user_id ''weekly'' t1 db)
                            (update_last_claim user_id ''weekly'' t2))
                  (get_last_claim user_id ''weekly'') = Inr t2"
proof -
  have "get_crystals user_id db =
           (daily_crystals row, weekly_crystals row, monthly_crystals row,
            daily_crystals row + weekly_crystals row + monthly_crystals row,
            spec_last_claim row)"
    using get_crystals_row[OF assms(1)] latest_nonempty_is_spec[OF assms(2)] by simp
  then show ?thesis using assms(1)
    by (simp add: update_last_claim_def get_last_claim_def resolve_recognised and_then_def)
qed

theorem get_crystals_total_and_last_claim_witness:
  "users db_two_claims 42 = Some row_two_claims \<and>
   Some [] \<notin> set (claim_fields row_two_claims) \<and>
   get_crystals 42 db_two_claims = (3, 2, 0, 3 + 2 + 0, Some ''2024-01-08T00:00:00'') \<and>
   and_then (and_then (update_last_claim 42 ''weekly'' (Some ''2024-01-15T00:00:00'') db_two_claims)
                      (update_last_claim 42 ''weekly'' (Some ''2024-01-22T00:00:00'')))
            (get_last_claim 42 ''weekly'') = Inr (Some ''2024-01-22T00:00:00'')"
proof -
  have h: "users db_two_claims 42 = Some row_two_claims" by (simp add: db_two_claims_def)
  have n: "Some [] \<notin> set (claim_fields row_two_claims)"
    by (simp add: claim_fields_def row_two_claims_def)
  have s: "spec_last_claim row_two_claims = Some ''2024-01-08T00:00:00''"
    by (simp add: spec_last_claim_def claim_fields_def row_two_claims_def latest_def)
  have c: "daily_crystals row_two_claims = 3" "weekly_crystals row_two_claims = 2"
          "monthly_crystals row_two_claims = 0"
    by (simp_all add: row_two_claims_def)
  from get_crystals_total_and_last_claim[OF h n, of "Some ''2024-01-15T00:00:00''"
         "Some ''2024-01-22T00:00:00''"] h n
  show ?thesis unfolding s c by blast
qed

section \<open>Profile upsert\<close>

text \<open>
  Claim C1. For every user and every set of keyword arguments that Python accepts
  (\<open>self\<close> and \<open>user_id\<close> are not keywords) with values of the columns' types and integers
  inside the 64-bit range, \<open>add_or_update_profile\<close> succeeds and makes the user's row the
  caller's fields merged over the defaults \<open>level=1\<close>, \<open>rank="Newbie"\<close>, \<open>badge="None"\<close>,
  \<open>total_collected=0\<close>, \<open>progress=0\<close>, \<open>balance=0\<close>, \<open>global_position="Unranked"\<close>, whatever
  row was there; \<open>get_user_profile\<close> then returns that row with the user's rarities. In
  particular, after any such upsert, \<open>add_or_update_profile(user, level=5)\<close> followed by
  \<open>get_user_profile(user)\<close> gives \<open>rank = "Newbie"\<close>, not the rank stored before.
\<close>

theorem add_or_update_profile_full_row:
  assumes "kw ''self'' = None" and "kw ''user_id'' = None" and "kwargs_typed kw"
    and "kwargs_in_range kw" and "in64 user_id"
  shows "add_or_update_profile user_id kw db =
           Inr (db\<lparr>user_profiles := (user_profiles db)(user_id \<mapsto> spec_merged_row kw)\<rparr>) \<and>
         and_then (add_or_update_profile user_id kw db) (\<lambda>db'. Inr (get_user_profile user_id db')) =
           Inr (Some \<lparr>level = field_or kw ''level'' (SInt 1),
                      rank = field_or kw ''rank'' (SText ''Newbie''),
                      badge = field_or kw ''badge'' (SText ''None''),
                      total_collected = field_or kw ''total_collected'' (SInt 0),
                      progress = field_or kw ''progress'' (SInt 0),
                      balance = field_or kw ''balance'' (SInt 0),
                      global_position = field_or kw ''global_position'' (SText ''Unranked''),
                      rarities = (\<lambda>rarity. user_rarities db (user_id, rarity))\<rparr>) \<and>
         and_then (add_or_update_profile user_id kw db)
           (\<lambda>db1. and_then (add_or_update_profile user_id kw_level5 db1)
              (\<lambda>db2. Inr (map_option rank (get_user_profile user_id db2)))) =
           Inr (Some (SText ''Newbie''))"
proof -
  let ?db1 = "db\<lparr>user_profiles := (user_profiles db)(user_id \<mapsto> spec_merged_row kw)\<rparr>"
  have first: "add_or_update_profile user_id kw db = Inr ?db1"
    using assms(1,2,4,5) by (rule add_or_update_profile_accepted)
  have second: "add_or_update_profile user_id kw_level5 ?db1 =
      Inr (?db1\<lparr>user_profiles := (user_profiles ?db1)(user_id \<mapsto> spec_merged_row kw_level5)\<rparr>)"
    using assms(5)
    by (intro add_or_update_profile_accepted)
       (simp_all add: kw_level5_def kwargs_in_range_def bindable_def in64_def)
  have newbie: "rank (spec_merged_row kw_level5) = SText ''Newbie''"
    by (simp add: spec_merged_row_def field_or_def kw_level5_def)
  have read: "get_user_profile user_id ?db1 =
      Some \<lparr>level = field_or kw ''level'' (SInt 1),
            rank = field_or kw ''rank'' (SText ''Newbie''),
            badge = field_or kw ''badge'' (SText ''None''),
            total_collected = field_or kw ''total_collected'' (SInt 0),
            progress = field_or kw ''progress'' (SInt 0),
            balance = field_or kw ''balance'' (SInt 0),
            global_position = field_or kw ''global_position'' (SText ''Unranked''),
            rarities = (\<lambda>rarity. user_rarities db (user_id, rarity))\<rparr>"
    by (simp add: get_user_profile_def spec_merged_row_def)
  have reset: "map_option rank (get_user_profile user_id
      (?db1\<lparr>user_profiles := (user_profiles ?db1)(user_id \<mapsto> spec_merged_row kw_level5)\<rparr>)) =
      Some (SText ''Newbie'')"
    by (simp add: get_user_profile_def newbie)
  have c2: "and_then (add_or_update_profile user_id kw db)
              (\<lambda>db'. Inr (get_user_profile user_id db')) = Inr (get_user_profile user_id ?db1)"
    by (simp only: first and_then_def sum.case)
  have c3: "and_then (add_or_update_profile user_id kw db)
           (\<lambda>db1. and_then (add_or_update_profile user_id kw_level5 db1)
              (\<lambda>db2. Inr (map_option rank (get_user_profile user_id db2)))) =
           Inr (Some (SText ''Newbie''))"
    by (simp only: first second and_then_def sum.case reset)
  from first c2 c3 show ?thesis by (simp only: read simp_thms)
qed

theorem add_or_update_profile_full_row_witness:
  "kw_legend ''self'' = None \<and> kw_legend ''user_id'' = None \<and> kwargs_typed kw_legend \<and>
   kwargs_in_range kw_legend \<and> in64 42 \<and>
   and_then (add_or_update_profile 42 kw_legend empty_db) (\<lambda>db'. Inr (get_user_profile 42 db')) =
     Inr (Some \<lparr>level = SInt 9, rank = SText ''Legend'', badge = SText ''None'',
                total_collected = SInt 0, progress = SInt 0, balance = SInt 0,
                global_position = SText ''Unranked'',
                rarities = (\<lambda>rarity. user_rarities empty_db (42, rarity))\<rparr>) \<and>
   and_then (add_or_update_profile 42 kw_legend empty_db)
     (\<lambda>db1. and_then (add_or_update_profile 42 kw_level5 db1)
        (\<lambda>db2. Inr (map_option rank (get_user_profile 42 db2)))) =
     Inr (Some (SText ''Newbie''))"
proof -
  have h1: "kw_legend ''self'' = None" by (simp add: kw_legend_def)
  have h2: "kw_legend ''user_id'' = None" by (simp add: kw_legend_def)
  have h3: "kwargs_typed kw_legend" by (simp add: kw_legend_def kwargs_typed_def)
  have h4: "kwargs_in_range kw_legend"
    by (simp add: kw_legend_def kwargs_in_range_def bindable_def in64_def)
  have h5: "in64 42" by (simp add: in64_def)
  have f: "field_or kw_legend ''level'' (SInt 1) = SInt 9"
          "field_or kw_legend ''rank'' (SText ''Newbie'') = SText ''Legend''"
          "field_or kw_legend ''badge'' (SText ''None'') = SText ''None''"
          "field_or kw_legend ''total_collected'' (SInt 0) = SInt 0"
          "field_or kw_legend ''progress'' (SInt 0) = SInt 0"
          "field_or kw_legend ''balance'' (SInt 0) = SInt 0"
          "field_or kw_legend ''global_position'' (SText ''Unranked'') = SText ''Unranked''"
    by (simp_all add: field_or_def kw_legend_def)
  from add_or_update_profile_full_row[OF h1 h2 h3 h4 h5, of empty_db] h1 h2 h3 h4 h5
  show ?thesis unfolding f by blast
qed

section \<open>Rarity counters\<close>

text \<open>
  Claim C7. \<open>update_user_rarity\<close> is an additive upsert, as long as the counts stay inside
  SQLite's 64-bit integers: for a pair \<open>(user, rarity)\<close> with no row it creates the row at
  the supplied count; for an existing row it adds the supplied count to the stored one;
  the store after the call differs from the one before in that pair only. Three calls
  \<open>update_user_rarity(user, "Legendary", 1)\<close> on a store without that pair leave the
  count 3.
\<close>

theorem update_user_rarity_additive:
  assumes "in64 user_id"
  shows "(in64 c \<and> user_rarities db (user_id, rarity) = None \<longrightarrow>
            update_user_rarity user_id rarity c db =
              Inr (db\<lparr>user_rarities := (user_rarities db)((user_id, rarity) \<mapsto> c)\<rparr>)) \<and>
         (\<forall>c0. in64 c \<and> user_rarities db (user_id, rarity) = Some c0 \<and> in64 (c0 + c) \<longrightarrow>
            update_user_rarity user_id rarity c db =
              Inr (db\<lparr>user_rarities := (user_rarities db)((user_id, rarity) \<mapsto> c0 + c)\<rparr>)) \<and>
         (user_rarities db (user_id, ''Legendary'') = None \<longrightarrow>
            and_then (and_then (update_user_rarity user_id ''Legendary'' 1 db)
                               (update_user_rarity user_id ''Legendary'' 1))
                     (update_user_rarity user_id ''Legendary'' 1) =
              Inr (db\<lparr>user_rarities := (user_rarities db)((user_id, ''Legendary'') \<mapsto> 3)\<rparr>))"
proof (intro conjI allI impI)
  assume "in64 c \<and> user_rarities db (user_id, rarity) = None"
  with assms show "update_user_rarity user_id rarity c db =
      Inr (db\<lparr>user_rarities := (user_rarities db)((user_id, rarity) \<mapsto> c)\<rparr>)"
    by (simp add: rarity_new)
next
  fix c0
  assume "in64 c \<and> user_rarities db (user_id, rarity) = Some c0 \<and> in64 (c0 + c)"
  with assms show "update_user_rarity user_id rarity c db =
      Inr (db\<lparr>user_rarities := (user_rarities db)((user_id, rarity) \<mapsto> c0 + c)\<rparr>)"
    by (simp add: rarity_add)
next
  assume n: "user_rarities db (user_id, ''Legendary'') = None"
  let ?k = "(user_id, ''Legendary'')"
  let ?db1 = "db\<lparr>user_rarities := (user_rarities db)(?k \<mapsto> 1)\<rparr>"
  let ?db2 = "?db1\<lparr>user_rarities := (user_rarities ?db1)(?k \<mapsto> 1 + 1)\<rparr>"
  have i: "in64 1" "in64 (1 + 1)" "in64 (1 + 1 + 1)" by (simp_all add: in64_def)
  have s1: "update_user_rarity user_id ''Legendary'' 1 db = Inr ?db1"
    using assms i(1) n by (rule rarity_new)
  have s2: "update_user_rarity user_id ''Legendary'' 1 ?db1 = Inr ?db2"
    using assms i(1) _ i(2) by (rule rarity_add) simp
  have s3: "update_user_rarity user_id ''Legendary'' 1 ?db2 =
      Inr (?db2\<lparr>user_rarities := (user_rarities ?db2)(?k \<mapsto> 1 + 1 + 1)\<rparr>)"
    using assms i(1) _ i(3) by (rule rarity_add) simp
  show "and_then (and_then (update_user_rarity user_id ''Legendary'' 1 db)
                               (update_user_rarity user_id ''Legendary'' 1))
                     (update_user_rarity user_id ''Legendary'' 1) =
              Inr (db\<lparr>user_rarities := (user_rarities db)((user_id, ''Legendary'') \<mapsto> 3)\<rparr>)"
    by (simp only: s1 s2 s3 and_then_def sum.case) simp
qed

theorem update_user_rarity_additive_witness:
  "in64 42 \<and> in64 1 \<and> in64 4 \<and> user_rarities empty_db (42, ''Legendary'') = None \<and>
   update_user_rarity 42 ''Legendary'' 1 empty_db =
     Inr (empty_db\<lparr>user_rarities := (user_rarities empty_db)((42, ''Legendary'') \<mapsto> 1)\<rparr>) \<and>
   user_rarities (empty_db\<lparr>user_rarities := (user_rarities empty_db)((42, ''Legendary'') \<mapsto> 1)\<rparr>)
     (42, ''Legendary'') = Some 1 \<and> in64 (1 + 4) \<and>
   update_user_rarity 42 ''Legendary'' 4
     (empty_db\<lparr>user_rarities := (user_rarities empty_db)((42, ''Legendary'') \<mapsto> 1)\<rparr>) =
     Inr (empty_db\<lparr>user_rarities := (user_rarities empty_db)((42, ''Legendary'') \<mapsto> 1)\<rparr>
            \<lparr>user_rarities :=
               (user_rarities (empty_db\<lparr>user_rarities :=
                  (user_rarities empty_db)((42, ''Legendary'') \<mapsto> 1)\<rparr>))((42, ''Legendary'') \<mapsto> 1 + 4)\<rparr>) \<and>
   and_then (and_then (update_user_rarity 42 ''Legendary'' 1 empty_db)
                      (update_user_rarity 42 ''Legendary'' 1))
            (update_user_rarity 42 ''Legendary'' 1) =
     Inr (empty_db\<lparr>user_rarities := (user_rarities empty_db)((42, ''Legendary'') \<mapsto> 3)\<rparr>)"
proof -
  let ?db1 = "empty_db\<lparr>user_rarities := (user_rarities empty_db)((42, ''Legendary'') \<mapsto> 1)\<rparr>"
  have i: "in64 42" "in64 1" "in64 4" "in64 (1 + 4)" by (simp_all add: in64_def)
  have h: "user_rarities empty_db (42, ''Legendary'') = None" by (simp add: empty_db_def)
  have h1: "user_rarities ?db1 (42, ''Legendary'') = Some 1" by simp
  from update_user_rarity_additive[OF i(1), of 1 empty_db "''Legendary''"]
       update_user_rarity_additive[OF i(1), of 4 ?db1 "''Legendary''"]
       i h h1
  show ?thesis by blast
qed

section \<open>Owned cards of one rarity: the count\<close>

text \<open>
  Claim C9. For every user and rarity label, \<open>get_user_rarity_count\<close> returns the sum of
  the amounts of the user's ownership rows whose card has that rarity, the card being
  found through the join with the catalogue on its identifier (a primary key, so the
  catalogue holds each identifier once), when the absolute values of these amounts add
  up to less than \<open>2^63\<close>, so that \<open>SUM\<close> cannot overflow in whatever order SQLite visits
  the rows; and it returns the integer 0, not \<open>None\<close>, when the join has no matching row.
\<close>

theorem get_user_rarity_count_sum:
  assumes "in64 user_id"
  shows "(distinct (map fst (waifu_cards db)) \<and>
          sum_list (map abs (spec_owned_amounts user_id rarity db)) < 2 ^ 63 \<longrightarrow>
            get_user_rarity_count user_id rarity db =
              Inr (sum_list (spec_owned_amounts user_id rarity db))) \<and>
         (filter (\<lambda>r. uw_user_id (fst r) = user_id \<and> card_rarity (snd r) = Some rarity)
                 (joined_rows db) = [] \<longrightarrow>
            get_user_rarity_count user_id rarity db = Inr 0)"
proof (intro conjI impI)
  assume h: "distinct (map fst (waifu_cards db)) \<and>
             sum_list (map abs (spec_owned_amounts user_id rarity db)) < 2 ^ 63"
  let ?vs = "map (\<lambda>r. amount (fst r))
        (filter (\<lambda>r. uw_user_id (fst r) = user_id \<and> card_rarity (snd r) = Some rarity) (joined_rows db))"
  from h have eq: "spec_owned_amounts user_id rarity db = map amount_or_zero ?vs"
    by (simp only: spec_owned_amounts_eq)
  with h have "sum_list (map (\<lambda>v. \<bar>amount_or_zero v\<bar>) ?vs) < 2 ^ 63"
    by (simp add: comp_def)
  from sql_sum_exact[OF this] obtain res where
    r: "sql_sum ?vs = Inr res" "amount_or_zero res = sum_list (map amount_or_zero ?vs)" by blast
  have "get_user_rarity_count user_id rarity db = Inr (amount_or_zero res)"
    using assms r(1) by (simp add: get_user_rarity_count_def Let_def amount_or_zero_def)
  with r(2) eq show "get_user_rarity_count user_id rarity db =
      Inr (sum_list (spec_owned_amounts user_id rarity db))" by simp
next
  assume "filter (\<lambda>r. uw_user_id (fst r) = user_id \<and> card_rarity (snd r) = Some rarity)
                 (joined_rows db) = []"
  with assms show "get_user_rarity_count user_id rarity db = Inr 0"
    by (simp add: get_user_rarity_count_def sql_sum_def)
qed

theorem get_user_rarity_count_sum_witness:
  "in64 42 \<and> distinct (map fst (waifu_cards db_cards)) \<and>
   sum_list (map abs (spec_owned_amounts 42 ''Legendary'' db_cards)) < 2 ^ 63 \<and>
   get_user_rarity_count 42 ''Legendary'' db_cards = Inr 2 \<and>
   filter (\<lambda>r. uw_user_id (fst r) = 42 \<and> card_rarity (snd r) = Some ''Mythic'') (joined_rows db_cards) = [] \<and>
   get_user_rarity_count 42 ''Mythic'' db_cards = Inr 0"
proof -
  have i: "in64 42" by (simp add: in64_def)
  have d: "distinct (map fst (waifu_cards db_cards))" by (simp add: db_cards_def)
  have e: "filter (\<lambda>r. uw_user_id (fst r) = 42 \<and> card_rarity (snd r) = Some ''Mythic'') (joined_rows db_cards) = []"
    by (simp add: db_cards_def joined_rows_def)
  have a: "spec_owned_amounts 42 ''Legendary'' db_cards = [2, 0]"
    by (simp add: spec_owned_amounts_def db_cards_def)
  have b: "sum_list (map abs (spec_owned_amounts 42 ''Legendary'' db_cards)) < 2 ^ 63"
    by (simp add: a)
  have s: "sum_list (spec_owned_amounts 42 ''Legendary'' db_cards) = 2"
    by (simp add: a)
  from get_user_rarity_count_sum[OF i, of db_cards "''Legendary''"]
       get_user_rarity_count_sum[OF i, of db_cards "''Mythic''"] i d e b s
  show ?thesis by simp
qed

end
